theory Spec2Isabelle
  imports Main
begin

section \<open>The reference registry of \<^verbatim>\<open>base_external_referentials/reference.py\<close>\<close>

text \<open>
  A \<^verbatim>\<open>Reference\<close> names a backend (a service and a version) and holds the classes
  registered for it: mappers, a binder, synchronizers and backend adapters. A lookup that
  finds nothing at one reference goes on at its parent. References are mutable objects
  that point to each other, so the model keeps them in an explicit store and every
  method takes the store and the address of \<^verbatim>\<open>self\<close>.
\<close>

subsection \<open>Values\<close>

text \<open>
  The exceptions the module can raise. \<^verbatim>\<open>ValueError\<close> and \<^verbatim>\<open>TypeError\<close> are raised by
  the module's own \<^verbatim>\<open>raise\<close> statements, \<^verbatim>\<open>KeyError\<close> by \<^verbatim>\<open>set.remove\<close>,
  \<^verbatim>\<open>AttributeError\<close> by reading \<^verbatim>\<open>.service\<close> of \<^verbatim>\<open>None\<close>, and
  \<^verbatim>\<open>UnboundLocalError\<close> by reading a local variable that no branch has assigned.
\<close>

datatype error = ValueError | TypeError | KeyError | AttributeError | UnboundLocalError

text \<open>
  The four base classes that \<^verbatim>\<open>reference.py\<close> imports. A registered class is known
  by its name and by which of the four it derives from; that is all the module asks of it,
  apart from its \<^verbatim>\<open>match\<close> class method, which the lookups below take as a parameter
  (the modules \<^verbatim>\<open>mapper\<close>, \<^verbatim>\<open>binder\<close>, \<^verbatim>\<open>synchronizer\<close> and
  \<^verbatim>\<open>backend_adapter\<close> are not part of the sources).
\<close>

datatype capability = Binder | Synchronizer | Mapper | BackendAdapter

record pyclass =
  cls_name :: string
  cls_bases :: "capability list"

definition issubclass :: "pyclass \<Rightarrow> capability \<Rightarrow> bool" where
  "issubclass cls k = (k \<in> set (cls_bases cls))"

type_synonym addr = nat

text \<open>
  The attributes of a \<^verbatim>\<open>Reference\<close> object. A field \<open>own_x\<close> is the attribute
  \<^verbatim>\<open>_x\<close> of the source (\<^verbatim>\<open>_service\<close>, \<^verbatim>\<open>_mappers\<close>, \<^verbatim>\<open>_binder\<close>,
  \<^verbatim>\<open>_synchronizers\<close>, \<^verbatim>\<open>_backend_adapters\<close>): what is registered at this
  reference itself, not at its parent. \<open>None\<close> is Python's \<^verbatim>\<open>None\<close>.

  A Python \<^verbatim>\<open>set\<close> is kept as the list of its elements in the order a \<^verbatim>\<open>for\<close>
  loop visits them. Python does not fix that order, so the theorems below are stated
  for stores whose sets are in any order, or for sets with at most one element that
  matters to the loop.
\<close>

record reference =
  own_service :: "string option"
  version :: "string option"
  parent :: "addr option"
  own_mappers :: "pyclass list"
  own_binder :: "pyclass option"
  own_synchronizers :: "pyclass list"
  own_backend_adapters :: "pyclass list"

text \<open>
  The store: the \<^verbatim>\<open>Reference\<close> objects made so far (the address of an object is its
  index in \<open>heap\<close>) and the \<^verbatim>\<open>references\<close> set of every \<^verbatim>\<open>ReferenceRegistry\<close>.
  Registry \<open>REFERENCES\<close> is the module-level one.
\<close>

record state =
  heap :: "reference list"
  registries :: "nat \<Rightarrow> addr list"

definition REFERENCES :: nat where
  "REFERENCES = 0"

definition init_state :: state where
  "init_state = \<lparr>heap = [], registries = (\<lambda>_. [])\<rparr>"

subsection \<open>Python sets and truth values\<close>

definition set_add :: "'a \<Rightarrow> 'a list \<Rightarrow> 'a list" where
  "set_add x xs = (if x \<in> set xs then xs else xs @ [x])"

definition set_remove :: "'a \<Rightarrow> 'a list \<Rightarrow> error + 'a list" where
  "set_remove x xs = (if x \<in> set xs then Inr (removeAll x xs) else Inl KeyError)"

text \<open>The truth value of an optional string: \<^verbatim>\<open>None\<close> and \<^verbatim>\<open>''\<close> are false.\<close>

definition truthy :: "string option \<Rightarrow> bool" where
  "truthy s = (case s of None \<Rightarrow> False | Some t \<Rightarrow> t \<noteq> [])"

subsection \<open>\<^verbatim>\<open>Reference.service\<close>, \<^verbatim>\<open>match\<close> and \<^verbatim>\<open>__str__\<close>\<close>

text \<open>
  \<^verbatim>\<open>return self._service or self.parent.service\<close>. The recursion follows the parent
  links of the store; on a cyclic chain of references without a service it does not
  return, which is the value \<open>None\<close> of the outer \<open>option\<close>.
\<close>

partial_function (option) service :: "state \<Rightarrow> addr \<Rightarrow> (error + string) option" where
  "service st a =
     (if truthy (own_service (heap st ! a)) then Some (Inr (the (own_service (heap st ! a))))
      else (case parent (heap st ! a) of
              None \<Rightarrow> Some (Inl AttributeError)
            | Some p \<Rightarrow> service st p))"

declare service.simps [code]

text \<open>
  \<^verbatim>\<open>return (self.service == service and self.version == version)\<close>
\<close>

definition Reference_match ::
    "state \<Rightarrow> addr \<Rightarrow> string option \<Rightarrow> string option \<Rightarrow> (error + bool) option" where
  "Reference_match st a svc ver =
     Option.bind (service st a) (\<lambda>r.
       case r of
         Inl e \<Rightarrow> Some (Inl e)
       | Inr s \<Rightarrow> Some (Inr (Some s = svc \<and> version (heap st ! a) = ver)))"

text \<open>
  \<^verbatim>\<open>__str__\<close>: both branches read \<^verbatim>\<open>self.service\<close>, so the conversion fails where
  the property does.
\<close>

definition Reference_str :: "state \<Rightarrow> addr \<Rightarrow> (error + string) option" where
  "Reference_str st a =
     Option.bind (service st a) (\<lambda>r.
       case r of
         Inl e \<Rightarrow> Some (Inl e)
       | Inr s \<Rightarrow>
           (if truthy (version (heap st ! a))
            then Some (Inr (''Reference('' @ [CHR 0x27] @ s @ [CHR 0x27] @ '', '' @ [CHR 0x27]
                            @ the (version (heap st ! a)) @ [CHR 0x27] @ '')''))
            else Some (Inr (''Reference('' @ [CHR 0x27] @ s @ [CHR 0x27] @ '')>''))))"

text \<open>
  A \<^verbatim>\<open>raise\<close> whose message is built with \<^verbatim>\<open>% (self, ...)\<close>: the message is
  formatted first, which calls \<^verbatim>\<open>__str__\<close>, and the exception of the statement is
  raised only if that returns.
\<close>

definition raise_about :: "state \<Rightarrow> addr \<Rightarrow> error \<Rightarrow> (error + 'a) option" where
  "raise_about st a e =
     Option.bind (Reference_str st a) (\<lambda>r.
       case r of Inl e' \<Rightarrow> Some (Inl e') | Inr msg \<Rightarrow> Some (Inl e))"

subsection \<open>The registry\<close>

text \<open>
  \<^verbatim>\<open>ReferenceRegistry.register_reference\<close>: \<^verbatim>\<open>self.references.add(reference)\<close>.
\<close>

definition register_reference :: "state \<Rightarrow> nat \<Rightarrow> addr \<Rightarrow> state" where
  "register_reference st reg a =
     st\<lparr>registries := (registries st)(reg := set_add a (registries st reg))\<rparr>"

text \<open>
  The loop of \<^verbatim>\<open>ReferenceRegistry.get_reference\<close> over the references still to visit:
  the first one whose \<^verbatim>\<open>match\<close> is true is returned, an exception of \<^verbatim>\<open>match\<close>
  leaves the loop, and the end of the loop raises \<^verbatim>\<open>ValueError\<close> (its message is
  made of the two arguments only).
\<close>

fun find_reference ::
    "state \<Rightarrow> addr list \<Rightarrow> string option \<Rightarrow> string option \<Rightarrow> (error + addr) option" where
  "find_reference st [] svc ver = Some (Inl ValueError)"
| "find_reference st (a # as) svc ver =
     (case Reference_match st a svc ver of
        None \<Rightarrow> None
      | Some (Inl e) \<Rightarrow> Some (Inl e)
      | Some (Inr True) \<Rightarrow> Some (Inr a)
      | Some (Inr False) \<Rightarrow> find_reference st as svc ver)"

definition ReferenceRegistry_get_reference ::
    "state \<Rightarrow> nat \<Rightarrow> string option \<Rightarrow> string option \<Rightarrow> (error + addr) option" where
  "ReferenceRegistry_get_reference st reg svc ver =
     find_reference st (registries st reg) svc ver"

text \<open>The module-level \<^verbatim>\<open>get_reference\<close>, on \<^verbatim>\<open>REFERENCES\<close>.\<close>

definition get_reference ::
    "state \<Rightarrow> string option \<Rightarrow> string option \<Rightarrow> (error + addr) option" where
  "get_reference st svc ver = ReferenceRegistry_get_reference st REFERENCES svc ver"

subsection \<open>\<^verbatim>\<open>Reference.__init__\<close>\<close>

text \<open>
  The arguments are \<^verbatim>\<open>service\<close>, \<^verbatim>\<open>version\<close>, \<^verbatim>\<open>parent\<close> and \<^verbatim>\<open>registry\<close>, each
  \<open>None\<close> when it is left out. The new object gets the next free address; the result is
  the store with the object in it and registered, and that address.
\<close>

definition Reference_init ::
    "state \<Rightarrow> string option \<Rightarrow> string option \<Rightarrow> addr option \<Rightarrow> nat option
      \<Rightarrow> error + state \<times> addr" where
  "Reference_init st svc ver par reg =
     (if svc = None \<and> par = None then Inl ValueError
      else
        let self = length (heap st);
            st' = st\<lparr>heap := heap st @
                    [\<lparr>own_service = svc, version = ver, parent = par, own_mappers = [],
                      own_binder = None, own_synchronizers = [], own_backend_adapters = []\<rparr>]\<rparr>;
            registry = (case reg of None \<Rightarrow> REFERENCES | Some g \<Rightarrow> g)
        in Inr (register_reference st' registry self, self))"

subsection \<open>The lookups\<close>

text \<open>
  Each lookup takes the \<^verbatim>\<open>match\<close> class method of the registered classes as its first
  argument. The loop over the set stops at the first class that matches
  (\<^const>\<open>find\<close>). A result \<open>Inr None\<close> is the Python value \<^verbatim>\<open>None\<close>, returned; a
  parent is an object, so \<^verbatim>\<open>self.parent\<close> is true exactly when it is not \<^verbatim>\<open>None\<close>.
\<close>

partial_function (option) get_synchronizer ::
    "(pyclass \<Rightarrow> string \<Rightarrow> string \<Rightarrow> bool) \<Rightarrow> state \<Rightarrow> addr \<Rightarrow> string \<Rightarrow> string
      \<Rightarrow> (error + pyclass option) option" where
  "get_synchronizer smatch st a synchro_type model =
     (case find (\<lambda>sync. smatch sync synchro_type model) (own_synchronizers (heap st ! a)) of
        Some sync \<Rightarrow> Some (Inr (Some sync))
      | None \<Rightarrow>
          (case parent (heap st ! a) of
             None \<Rightarrow> Some (Inr None)
           | Some p \<Rightarrow>
               Option.bind (get_synchronizer smatch st p synchro_type model) (\<lambda>r.
                 case r of
                   Inl e \<Rightarrow> Some (Inl e)
                 | Inr None \<Rightarrow> raise_about st a ValueError
                 | Inr (Some synchronizer) \<Rightarrow> Some (Inr (Some synchronizer)))))"

declare get_synchronizer.simps [code]

partial_function (option) get_mapper ::
    "(pyclass \<Rightarrow> string \<Rightarrow> string \<Rightarrow> string option \<Rightarrow> bool) \<Rightarrow> state \<Rightarrow> addr
      \<Rightarrow> string \<Rightarrow> string \<Rightarrow> string option \<Rightarrow> (error + pyclass option) option" where
  "get_mapper mmatch st a model direction child_of =
     (case find (\<lambda>proc. mmatch proc model direction child_of) (own_mappers (heap st ! a)) of
        Some proc \<Rightarrow> Some (Inr (Some proc))
      | None \<Rightarrow>
          (case parent (heap st ! a) of
             None \<Rightarrow> Some (Inr None)
           | Some p \<Rightarrow>
               Option.bind (get_mapper mmatch st p model direction child_of) (\<lambda>r.
                 case r of
                   Inl e \<Rightarrow> Some (Inl e)
                 | Inr None \<Rightarrow> raise_about st a ValueError
                 | Inr (Some mapper) \<Rightarrow> Some (Inr (Some mapper)))))"

declare get_mapper.simps [code]

partial_function (option) get_backend_adapter ::
    "(pyclass \<Rightarrow> string \<Rightarrow> bool) \<Rightarrow> state \<Rightarrow> addr \<Rightarrow> string
      \<Rightarrow> (error + pyclass option) option" where
  "get_backend_adapter amatch st a model =
     (case find (\<lambda>proc. amatch proc model) (own_backend_adapters (heap st ! a)) of
        Some proc \<Rightarrow> Some (Inr (Some proc))
      | None \<Rightarrow>
          (case parent (heap st ! a) of
             None \<Rightarrow> Some (Inr None)
           | Some p \<Rightarrow>
               Option.bind (get_backend_adapter amatch st p model) (\<lambda>r.
                 case r of
                   Inl e \<Rightarrow> Some (Inl e)
                 | Inr None \<Rightarrow> raise_about st a ValueError
                 | Inr (Some adapter) \<Rightarrow> Some (Inr (Some adapter)))))"

declare get_backend_adapter.simps [code]

text \<open>
  \<^verbatim>\<open>get_binder\<close> has no initial \<^verbatim>\<open>binder = None\<close>: with no binder of its own and no
  parent, the test \<^verbatim>\<open>if binder is None\<close> reads a local variable that was never
  assigned, and Python raises \<^verbatim>\<open>UnboundLocalError\<close> there. A registered class is a
  true value, so \<^verbatim>\<open>if self._binder\<close> asks whether one is registered.
\<close>

partial_function (option) get_binder ::
    "state \<Rightarrow> addr \<Rightarrow> string \<Rightarrow> (error + pyclass option) option" where
  "get_binder st a model =
     (case own_binder (heap st ! a) of
        Some b \<Rightarrow> Some (Inr (Some b))
      | None \<Rightarrow>
          (case parent (heap st ! a) of
             None \<Rightarrow> Some (Inl UnboundLocalError)
           | Some p \<Rightarrow>
               Option.bind (get_binder st p model) (\<lambda>r.
                 case r of
                   Inl e \<Rightarrow> Some (Inl e)
                 | Inr None \<Rightarrow> raise_about st a ValueError
                 | Inr (Some b) \<Rightarrow> Some (Inr (Some b)))))"

declare get_binder.simps [code]

subsection \<open>Registration\<close>

definition register_binder :: "state \<Rightarrow> addr \<Rightarrow> pyclass \<Rightarrow> state" where
  "register_binder st a b =
     st\<lparr>heap := (heap st)[a := (heap st ! a)\<lparr>own_binder := Some b\<rparr>]\<rparr>"

definition register_synchronizer :: "state \<Rightarrow> addr \<Rightarrow> pyclass \<Rightarrow> state" where
  "register_synchronizer st a synchronizer =
     st\<lparr>heap := (heap st)[a := (heap st ! a)
       \<lparr>own_synchronizers := set_add synchronizer (own_synchronizers (heap st ! a))\<rparr>]\<rparr>"

definition register_mapper :: "state \<Rightarrow> addr \<Rightarrow> pyclass \<Rightarrow> state" where
  "register_mapper st a mapper =
     st\<lparr>heap := (heap st)[a := (heap st ! a)
       \<lparr>own_mappers := set_add mapper (own_mappers (heap st ! a))\<rparr>]\<rparr>"

definition register_backend_adapter :: "state \<Rightarrow> addr \<Rightarrow> pyclass \<Rightarrow> state" where
  "register_backend_adapter st a adapter =
     st\<lparr>heap := (heap st)[a := (heap st ! a)
       \<lparr>own_backend_adapters := set_add adapter (own_backend_adapters (heap st ! a))\<rparr>]\<rparr>"

definition unregister_synchronizer :: "state \<Rightarrow> addr \<Rightarrow> pyclass \<Rightarrow> error + state" where
  "unregister_synchronizer st a synchronizer =
     (case set_remove synchronizer (own_synchronizers (heap st ! a)) of
        Inl e \<Rightarrow> Inl e
      | Inr xs \<Rightarrow> Inr (st\<lparr>heap := (heap st)[a := (heap st ! a)\<lparr>own_synchronizers := xs\<rparr>]\<rparr>))"

definition unregister_mapper :: "state \<Rightarrow> addr \<Rightarrow> pyclass \<Rightarrow> error + state" where
  "unregister_mapper st a mapper =
     (case set_remove mapper (own_mappers (heap st ! a)) of
        Inl e \<Rightarrow> Inl e
      | Inr xs \<Rightarrow> Inr (st\<lparr>heap := (heap st)[a := (heap st ! a)\<lparr>own_mappers := xs\<rparr>]\<rparr>))"

definition unregister_backend_adapter :: "state \<Rightarrow> addr \<Rightarrow> pyclass \<Rightarrow> error + state" where
  "unregister_backend_adapter st a adapter =
     (case set_remove adapter (own_backend_adapters (heap st ! a)) of
        Inl e \<Rightarrow> Inl e
      | Inr xs \<Rightarrow> Inr (st\<lparr>heap := (heap st)[a := (heap st ! a)\<lparr>own_backend_adapters := xs\<rparr>]\<rparr>))"

text \<open>
  \<^verbatim>\<open>Reference.__call__\<close>, the decorator: the first of the four base classes that
  \<^verbatim>\<open>cls\<close> derives from decides where it is registered, and \<^verbatim>\<open>cls\<close> is returned. The
  message of the \<^verbatim>\<open>TypeError\<close> is built with \<^verbatim>\<open>% (cls, self)\<close>.
\<close>

definition Reference_call :: "state \<Rightarrow> addr \<Rightarrow> pyclass \<Rightarrow> (error + state \<times> pyclass) option" where
  "Reference_call st a cls =
     (if issubclass cls Binder then Some (Inr (register_binder st a cls, cls))
      else if issubclass cls Synchronizer then Some (Inr (register_synchronizer st a cls, cls))
      else if issubclass cls Mapper then Some (Inr (register_mapper st a cls, cls))
      else if issubclass cls BackendAdapter then Some (Inr (register_backend_adapter st a cls, cls))
      else raise_about st a TypeError)"

subsection \<open>Example stores\<close>

text \<open>
  The stores of the class docstring's example, \<^verbatim>\<open>magento = Reference('magento')\<close>
  followed by \<^verbatim>\<open>magento1700 = Reference(parent=magento, version='1.7')\<close>: the first
  object has address 0 and the second address 1. \<open>unnamed_store\<close> is the store after
  \<^verbatim>\<open>Reference('')\<close> alone.
\<close>

definition magento_store :: state where
  "magento_store =
     \<lparr>heap = [\<lparr>own_service = Some ''magento'', version = None, parent = None, own_mappers = [],
               own_binder = None, own_synchronizers = [], own_backend_adapters = []\<rparr>],
      registries = (\<lambda>_. [])(0 := [0])\<rparr>"

definition magento1700_store :: state where
  "magento1700_store =
     \<lparr>heap = [\<lparr>own_service = Some ''magento'', version = None, parent = None, own_mappers = [],
               own_binder = None, own_synchronizers = [], own_backend_adapters = []\<rparr>,
              \<lparr>own_service = None, version = Some ''1.7'', parent = Some 0, own_mappers = [],
               own_binder = None, own_synchronizers = [], own_backend_adapters = []\<rparr>],
      registries = (\<lambda>_. [])(0 := [0, 1])\<rparr>"

definition unnamed_store :: state where
  "unnamed_store =
     \<lparr>heap = [\<lparr>own_service = Some [], version = Some ''1.7'', parent = None, own_mappers = [],
               own_binder = None, own_synchronizers = [], own_backend_adapters = []\<rparr>],
      registries = (\<lambda>_. [])(0 := [0])\<rparr>"

text \<open>Some classes to register, and a \<^verbatim>\<open>match\<close> for mappers of partners.\<close>

definition PartnerImportMapper :: pyclass where
  "PartnerImportMapper = \<lparr>cls_name = ''PartnerImportMapper'', cls_bases = [Mapper]\<rparr>"

definition PartnerImportMapper1700 :: pyclass where
  "PartnerImportMapper1700 = \<lparr>cls_name = ''PartnerImportMapper1700'', cls_bases = [Mapper]\<rparr>"

definition MagentoBinder :: pyclass where
  "MagentoBinder = \<lparr>cls_name = ''MagentoBinder'', cls_bases = [Binder]\<rparr>"

definition PlainClass :: pyclass where
  "PlainClass = \<lparr>cls_name = ''PlainClass'', cls_bases = []\<rparr>"

definition partner_import :: "pyclass \<Rightarrow> string \<Rightarrow> string \<Rightarrow> string option \<Rightarrow> bool" where
  "partner_import cls model direction child_of =
     (model = ''res.partner'' \<and> direction = ''in'' \<and> child_of = None)"

section \<open>Properties\<close>

subsection \<open>Unfolding the recursive lookups once\<close>

lemma service_own:
  "truthy (own_service (heap st ! a))
    \<Longrightarrow> service st a = Some (Inr (the (own_service (heap st ! a))))"
  by (subst service.simps) simp

lemma service_no_parent:
  "\<not> truthy (own_service (heap st ! a)) \<Longrightarrow> parent (heap st ! a) = None
    \<Longrightarrow> service st a = Some (Inl AttributeError)"
  by (subst service.simps) simp

lemma service_parent:
  "\<not> truthy (own_service (heap st ! a)) \<Longrightarrow> parent (heap st ! a) = Some p
    \<Longrightarrow> service st a = service st p"
  by (subst service.simps) simp

lemma raise_about_resolved:
  "service st a = Some (Inr s) \<Longrightarrow> raise_about st a e = Some (Inl e)"
  by (simp add: raise_about_def Reference_str_def)

lemma raise_about_unresolved:
  "service st a = Some (Inl e') \<Longrightarrow> raise_about st a e = Some (Inl e')"
  by (simp add: raise_about_def Reference_str_def)

lemma Reference_match_own:
  assumes "truthy (own_service (heap st ! a))"
  shows "Reference_match st a svc ver =
           Some (Inr (own_service (heap st ! a) = svc \<and> version (heap st ! a) = ver))"
  using assms
  by (cases "own_service (heap st ! a)") (simp_all add: Reference_match_def service_own truthy_def)

lemma get_binder_registered:
  "own_binder (heap st ! a) = Some b \<Longrightarrow> get_binder st a model = Some (Inr (Some b))"
  by (subst get_binder.simps) simp

subsection \<open>What the constructor does to the store\<close>

lemma Reference_init_Inr:
  assumes "Reference_init st svc ver par reg = Inr (st', a)"
  shows "a = length (heap st)"
    and "heap st' = heap st @
           [\<lparr>own_service = svc, version = ver, parent = par, own_mappers = [],
             own_binder = None, own_synchronizers = [], own_backend_adapters = []\<rparr>]"
    and "registries st' = (registries st)
           ((case reg of None \<Rightarrow> REFERENCES | Some g \<Rightarrow> g) :=
              set_add a (registries st (case reg of None \<Rightarrow> REFERENCES | Some g \<Rightarrow> g)))"
  using assms
  by (auto simp: Reference_init_def Let_def register_reference_def split: if_splits)

lemma Reference_init_heap:
  assumes "Reference_init st svc ver par reg = Inr (st', a)"
  shows "length (heap st') = Suc (length (heap st))"
    and "heap st' ! a = \<lparr>own_service = svc, version = ver, parent = par, own_mappers = [],
                         own_binder = None, own_synchronizers = [], own_backend_adapters = []\<rparr>"
    and "b < length (heap st) \<Longrightarrow> heap st' ! b = heap st ! b"
  by (simp_all add: Reference_init_Inr[OF assms] nth_append)

lemma init_magento:
  "Reference_init init_state (Some ''magento'') None None None = Inr (magento_store, 0)"
  by (simp add: Reference_init_def init_state_def magento_store_def register_reference_def
      set_add_def REFERENCES_def)

lemma init_magento1700:
  "Reference_init magento_store None (Some ''1.7'') (Some 0) None = Inr (magento1700_store, 1)"
  by (simp add: Reference_init_def magento_store_def magento1700_store_def
      register_reference_def set_add_def REFERENCES_def)

lemma init_unnamed:
  "Reference_init init_state (Some []) (Some ''1.7'') None None = Inr (unnamed_store, 0)"
  by (simp add: Reference_init_def init_state_def unnamed_store_def register_reference_def
      set_add_def REFERENCES_def)

subsection \<open>The loop of the registry\<close>

lemma find_reference_unique:
  assumes "a \<in> set xs"
    and "Reference_match st a svc ver = Some (Inr True)"
    and "\<forall>b\<in>set xs. b \<noteq> a \<longrightarrow> Reference_match st b svc ver = Some (Inr False)"
  shows "find_reference st xs svc ver = Some (Inr a)"
  using assms
proof (induction xs)
  case Nil
  then show ?case by simp
next
  case (Cons x xs)
  show ?case
  proof (cases "x = a")
    case True
    with Cons.prems show ?thesis by simp
  next
    case False
    with Cons.prems have "Reference_match st x svc ver = Some (Inr False)" by simp
    moreover from False Cons.prems have "find_reference st xs svc ver = Some (Inr a)"
      by (intro Cons.IH) auto
    ultimately show ?thesis by simp
  qed
qed

lemma find_reference_reaches:
  assumes "\<forall>b\<in>set xs. Reference_match st b svc ver = Some (Inr False)"
  shows "find_reference st (xs @ a # ys) svc ver =
           (case Reference_match st a svc ver of
              None \<Rightarrow> None
            | Some (Inl e) \<Rightarrow> Some (Inl e)
            | Some (Inr True) \<Rightarrow> Some (Inr a)
            | Some (Inr False) \<Rightarrow> find_reference st ys svc ver)"
  using assms by (induction xs) simp_all

lemma set_remove_add: "set_remove m (set_add m xs) = Inr (removeAll m xs)"
  by (simp add: set_remove_def set_add_def)

subsection \<open>The claims\<close>

text \<open>
  C6. Constructing a \<^verbatim>\<open>Reference\<close> with neither a service nor a parent raises
  \<^verbatim>\<open>ValueError\<close> (the configuration error of the specification); with a service or a
  parent, whatever the other arguments are, the constructor returns a new reference.
\<close>

theorem init_needs_service_or_parent:
  "(svc = None \<and> par = None \<longrightarrow> Reference_init st svc ver par reg = Inl ValueError) \<and>
   (svc \<noteq> None \<or> par \<noteq> None \<longrightarrow> (\<exists>st' a. Reference_init st svc ver par reg = Inr (st', a)))"
  by (simp add: Reference_init_def Let_def)

theorem init_needs_service_or_parent_witness:
  "Reference_init init_state None (Some ''1.7'') None None = Inl ValueError \<and>
   (\<exists>st' a. Reference_init init_state (Some ''magento'') None None None = Inr (st', a)) \<and>
   (\<exists>st' a. Reference_init magento_store None (Some ''1.7'') (Some 0) None = Inr (st', a))"
  using init_needs_service_or_parent [of None None init_state "Some ''1.7''" None]
    init_needs_service_or_parent [of "Some ''magento''" None init_state None None]
    init_needs_service_or_parent [of None "Some 0" magento_store "Some ''1.7''" None]
  by simp

text \<open>
  C8. On any reference of the store, \<^verbatim>\<open>register_mapper(m)\<close> followed by
  \<^verbatim>\<open>unregister_mapper(m)\<close> returns, the mapper set is then the set of before without
  \<open>m\<close>, and a second \<^verbatim>\<open>unregister_mapper(m)\<close> raises \<^verbatim>\<open>KeyError\<close> (a
  \<^verbatim>\<open>LookupError\<close>).
\<close>

theorem register_unregister_mapper:
  assumes "a < length (heap st)"
  shows "\<exists>st'. unregister_mapper (register_mapper st a m) a m = Inr st' \<and>
          set (own_mappers (heap st' ! a)) = set (own_mappers (heap st ! a)) - {m} \<and>
          m \<notin> set (own_mappers (heap st' ! a)) \<and>
          unregister_mapper st' a m = Inl KeyError"
  using assms
  by (simp add: unregister_mapper_def register_mapper_def set_remove_add)
    (simp add: set_remove_def)

theorem register_unregister_mapper_witness:
  "(0::nat) < length (heap magento1700_store) \<and>
   (\<exists>st'. unregister_mapper (register_mapper magento1700_store 0 PartnerImportMapper) 0
            PartnerImportMapper = Inr st' \<and>
      PartnerImportMapper \<notin> set (own_mappers (heap st' ! 0)) \<and>
      unregister_mapper st' 0 PartnerImportMapper = Inl KeyError)"
  using register_unregister_mapper [of 0 magento1700_store PartnerImportMapper]
  by (auto simp: magento1700_store_def)

text \<open>
  C1. Parent fallback. A parent reference is constructed with a service and no parent, a
  child with that parent and no service; then a mapper \<open>m\<close> is registered on the parent
  only. For every model, direction and \<^verbatim>\<open>child_of\<close> that \<open>m\<close> matches,
  \<^verbatim>\<open>child.get_mapper\<close> returns \<open>m\<close>.
\<close>

theorem parent_fallback:
  assumes P: "Reference_init st (Some svc) pver None preg = Inr (st1, p)"
      and C: "Reference_init st1 None cver (Some p) creg = Inr (st2, c)"
      and M: "mmatch m model direction child_of"
  shows "get_mapper mmatch (register_mapper st2 p m) c model direction child_of
           = Some (Inr (Some m))"
proof -
  let ?st3 = "register_mapper st2 p m"
  have p: "p = length (heap st)" and c: "c = length (heap st1)"
    by (simp_all add: Reference_init_Inr(1)[OF P] Reference_init_Inr(1)[OF C])
  have l1: "length (heap st1) = Suc (length (heap st))"
    and l2: "length (heap st2) = Suc (length (heap st1))"
    by (simp_all add: Reference_init_heap(1)[OF P] Reference_init_heap(1)[OF C])
  have pc: "p < length (heap st1)" "p \<noteq> c" "p < length (heap st2)"
    using p c l1 l2 by simp_all
  have hp: "own_mappers (heap st2 ! p) = []"
    using Reference_init_heap(3)[OF C pc(1)] Reference_init_heap(2)[OF P] by simp
  have hc: "own_mappers (heap st2 ! c) = []" "parent (heap st2 ! c) = Some p"
    using Reference_init_heap(2)[OF C] by simp_all
  have 3: "own_mappers (heap ?st3 ! p) = [m]" "own_mappers (heap ?st3 ! c) = []"
     "parent (heap ?st3 ! c) = Some p"
    using pc hp hc by (simp_all add: register_mapper_def set_add_def)
  have "get_mapper mmatch ?st3 p model direction child_of = Some (Inr (Some m))"
    by (subst get_mapper.simps) (simp add: 3 M)
  then show ?thesis
    by (subst get_mapper.simps) (simp add: 3)
qed

theorem parent_fallback_witness:
  "Reference_init init_state (Some ''magento'') None None None = Inr (magento_store, 0) \<and>
   Reference_init magento_store None (Some ''1.7'') (Some 0) None = Inr (magento1700_store, 1) \<and>
   partner_import PartnerImportMapper ''res.partner'' ''in'' None \<and>
   get_mapper partner_import (register_mapper magento1700_store 0 PartnerImportMapper) 1
     ''res.partner'' ''in'' None = Some (Inr (Some PartnerImportMapper))"
  using parent_fallback [OF init_magento init_magento1700,
      of partner_import PartnerImportMapper "''res.partner''" "''in''" None]
  by (simp add: init_magento init_magento1700 partner_import_def)

text \<open>
  C2. Shadowing. With the same parent and child, one mapper registered on the parent and
  one on the child, both matching the same arguments: \<^verbatim>\<open>child.get_mapper\<close> returns the
  child's mapper and \<^verbatim>\<open>parent.get_mapper\<close> the parent's.
\<close>

theorem child_mapper_shadows_parent:
  assumes P: "Reference_init st (Some svc) pver None preg = Inr (st1, p)"
      and C: "Reference_init st1 None cver (Some p) creg = Inr (st2, c)"
      and Mp: "mmatch mp model direction child_of"
      and Mc: "mmatch mc model direction child_of"
  shows "get_mapper mmatch (register_mapper (register_mapper st2 p mp) c mc) c
           model direction child_of = Some (Inr (Some mc)) \<and>
         get_mapper mmatch (register_mapper (register_mapper st2 p mp) c mc) p
           model direction child_of = Some (Inr (Some mp))"
proof -
  let ?st4 = "register_mapper (register_mapper st2 p mp) c mc"
  have p: "p = length (heap st)" and c: "c = length (heap st1)"
    by (simp_all add: Reference_init_Inr(1)[OF P] Reference_init_Inr(1)[OF C])
  have l1: "length (heap st1) = Suc (length (heap st))"
    and l2: "length (heap st2) = Suc (length (heap st1))"
    by (simp_all add: Reference_init_heap(1)[OF P] Reference_init_heap(1)[OF C])
  have pc: "p < length (heap st1)" "p \<noteq> c" "p < length (heap st2)" "c < length (heap st2)"
    using p c l1 l2 by simp_all
  have hp: "own_mappers (heap st2 ! p) = []"
    using Reference_init_heap(3)[OF C pc(1)] Reference_init_heap(2)[OF P] by simp
  have hc: "own_mappers (heap st2 ! c) = []"
    using Reference_init_heap(2)[OF C] by simp
  have 4: "own_mappers (heap ?st4 ! p) = [mp]" "own_mappers (heap ?st4 ! c) = [mc]"
    using pc hp hc by (simp_all add: register_mapper_def set_add_def)
  have "get_mapper mmatch ?st4 p model direction child_of = Some (Inr (Some mp))"
    by (subst get_mapper.simps) (simp add: 4 Mp)
  moreover have "get_mapper mmatch ?st4 c model direction child_of = Some (Inr (Some mc))"
    by (subst get_mapper.simps) (simp add: 4 Mc)
  ultimately show ?thesis by simp
qed

theorem child_mapper_shadows_parent_witness:
  "partner_import PartnerImportMapper ''res.partner'' ''in'' None \<and>
   partner_import PartnerImportMapper1700 ''res.partner'' ''in'' None \<and>
   get_mapper partner_import
     (register_mapper (register_mapper magento1700_store 0 PartnerImportMapper) 1
        PartnerImportMapper1700) 1 ''res.partner'' ''in'' None
     = Some (Inr (Some PartnerImportMapper1700)) \<and>
   get_mapper partner_import
     (register_mapper (register_mapper magento1700_store 0 PartnerImportMapper) 1
        PartnerImportMapper1700) 0 ''res.partner'' ''in'' None
     = Some (Inr (Some PartnerImportMapper))"
  using child_mapper_shadows_parent [OF init_magento init_magento1700,
      of partner_import PartnerImportMapper "''res.partner''" "''in''" None
         PartnerImportMapper1700]
  by (simp add: partner_import_def)

text \<open>
  C9. Frame of registration. \<^verbatim>\<open>register_mapper(m)\<close> on the reference at \<open>a\<close> leaves
  the registries, the number of objects and every other object as they were; the object
  at \<open>a\<close> is the one of before with only its mapper set replaced (so its binder, its
  synchronizers, its backend adapters, its service, its version and its parent are
  unchanged), and the new mapper set is the old one with \<open>m\<close> added. The same holds for
  \<^verbatim>\<open>register_synchronizer\<close> and \<^verbatim>\<open>register_backend_adapter\<close> and their sets.
\<close>

theorem register_frame:
  assumes "a < length (heap st)"
  shows "(let st' = register_mapper st a m in
            registries st' = registries st \<and> length (heap st') = length (heap st) \<and>
            (\<forall>b. b \<noteq> a \<longrightarrow> heap st' ! b = heap st ! b) \<and>
            set (own_mappers (heap st' ! a)) = insert m (set (own_mappers (heap st ! a))) \<and>
            heap st' ! a = (heap st ! a)\<lparr>own_mappers := own_mappers (heap st' ! a)\<rparr>) \<and>
         (let st' = register_synchronizer st a m in
            registries st' = registries st \<and> length (heap st') = length (heap st) \<and>
            (\<forall>b. b \<noteq> a \<longrightarrow> heap st' ! b = heap st ! b) \<and>
            set (own_synchronizers (heap st' ! a))
              = insert m (set (own_synchronizers (heap st ! a))) \<and>
            heap st' ! a
              = (heap st ! a)\<lparr>own_synchronizers := own_synchronizers (heap st' ! a)\<rparr>) \<and>
         (let st' = register_backend_adapter st a m in
            registries st' = registries st \<and> length (heap st') = length (heap st) \<and>
            (\<forall>b. b \<noteq> a \<longrightarrow> heap st' ! b = heap st ! b) \<and>
            set (own_backend_adapters (heap st' ! a))
              = insert m (set (own_backend_adapters (heap st ! a))) \<and>
            heap st' ! a
              = (heap st ! a)\<lparr>own_backend_adapters := own_backend_adapters (heap st' ! a)\<rparr>)"
  using assms
  by (auto simp: Let_def register_mapper_def register_synchronizer_def
      register_backend_adapter_def set_add_def)

theorem register_frame_witness:
  "(1::nat) < length (heap magento1700_store) \<and>
   registries (register_mapper magento1700_store 1 PartnerImportMapper1700)
     = registries magento1700_store \<and>
   heap (register_mapper magento1700_store 1 PartnerImportMapper1700) ! 0
     = heap magento1700_store ! 0 \<and>
   heap (register_mapper magento1700_store 1 PartnerImportMapper1700) ! 1
     = (heap magento1700_store ! 1)\<lparr>own_mappers := [PartnerImportMapper1700]\<rparr> \<and>
   heap (register_synchronizer magento1700_store 1 PlainClass) ! 0
     = heap magento1700_store ! 0 \<and>
   heap (register_backend_adapter magento1700_store 1 PlainClass) ! 0
     = heap magento1700_store ! 0"
  using register_frame [of 1 magento1700_store PartnerImportMapper1700]
    register_frame [of 1 magento1700_store PlainClass]
  by (simp add: magento1700_store_def Let_def register_mapper_def set_add_def)

text \<open>
  C10. The empty service. \<^verbatim>\<open>Reference(service='')\<close> with no parent is accepted by
  the constructor, which rejects only an absent service, and is registered. From then on
  its \<^verbatim>\<open>service\<close> property raises \<^verbatim>\<open>AttributeError\<close> (the empty string is false,
  so the property reads \<^verbatim>\<open>self.parent.service\<close>, and the parent is \<^verbatim>\<open>None\<close>); so
  does its \<^verbatim>\<open>match\<close>, whatever the arguments, and so does every registry lookup whose
  loop reaches it, that is, every lookup in which the references visited before it do not
  match.
\<close>

theorem empty_service_accepted_then_unusable:
  "Reference_init st None ver None reg = Inl ValueError \<and>
   (\<exists>st' a. Reference_init st (Some []) ver None reg = Inr (st', a) \<and>
      a \<in> set (registries st' (case reg of None \<Rightarrow> REFERENCES | Some g \<Rightarrow> g)) \<and>
      service st' a = Some (Inl AttributeError) \<and>
      (\<forall>svc v. Reference_match st' a svc v = Some (Inl AttributeError)) \<and>
      (\<forall>xs ys svc v. (\<forall>b\<in>set xs. Reference_match st' b svc v = Some (Inr False)) \<longrightarrow>
           find_reference st' (xs @ a # ys) svc v = Some (Inl AttributeError)))"
proof -
  obtain st' a where I: "Reference_init st (Some []) ver None reg = Inr (st', a)"
    by (simp add: Reference_init_def Let_def)
  have s: "service st' a = Some (Inl AttributeError)"
    by (rule service_no_parent) (simp_all add: Reference_init_heap(2)[OF I] truthy_def)
  then have m: "Reference_match st' a svc v = Some (Inl AttributeError)" for svc v
    by (simp add: Reference_match_def)
  have "a \<in> set (registries st' (case reg of None \<Rightarrow> REFERENCES | Some g \<Rightarrow> g))"
    by (simp add: Reference_init_Inr(3)[OF I] set_add_def)
  moreover have "find_reference st' (xs @ a # ys) svc v = Some (Inl AttributeError)"
    if "\<forall>b\<in>set xs. Reference_match st' b svc v = Some (Inr False)" for xs ys svc v
    using that by (simp add: find_reference_reaches m)
  moreover have "Reference_init st None ver None reg = Inl ValueError"
    by (simp add: Reference_init_def)
  ultimately show ?thesis using I s m by blast
qed

theorem empty_service_accepted_then_unusable_witness:
  "Reference_init init_state None (Some ''1.7'') None None = Inl ValueError \<and>
   Reference_init init_state (Some []) (Some ''1.7'') None None = Inr (unnamed_store, 0) \<and>
   service unnamed_store 0 = Some (Inl AttributeError) \<and>
   Reference_match unnamed_store 0 (Some ''magento'') None = Some (Inl AttributeError) \<and>
   get_reference unnamed_store (Some ''magento'') None = Some (Inl AttributeError)"
proof -
  from empty_service_accepted_then_unusable [of init_state "Some ''1.7''" None]
  obtain st' a where I: "Reference_init init_state (Some []) (Some ''1.7'') None None = Inr (st', a)"
    and V: "Reference_init init_state None (Some ''1.7'') None None = Inl ValueError"
    and S: "service st' a = Some (Inl AttributeError)"
    and M: "\<forall>svc v. Reference_match st' a svc v = Some (Inl AttributeError)"
    and F: "\<forall>xs ys svc v. (\<forall>b\<in>set xs. Reference_match st' b svc v = Some (Inr False)) \<longrightarrow>
              find_reference st' (xs @ a # ys) svc v = Some (Inl AttributeError)"
    by blast
  from I have st': "st' = unnamed_store" and a: "a = 0"
    by (simp_all add: init_unnamed)
  from F have "find_reference st' ([] @ a # []) (Some ''magento'') None = Some (Inl AttributeError)"
    by (rule allE [where x = "[]"]) simp
  then have "get_reference unnamed_store (Some ''magento'') None = Some (Inl AttributeError)"
    by (simp add: st' a get_reference_def ReferenceRegistry_get_reference_def REFERENCES_def
        unnamed_store_def)
  with V S M show ?thesis
    by (simp add: st' a init_unnamed)
qed

text \<open>
  C4, as the code has it. A reference with no binder of its own and no parent does not
  return \<^verbatim>\<open>None\<close> from \<^verbatim>\<open>get_binder\<close>: the call raises an exception, for every
  model, and returns no value.
\<close>

theorem get_binder_without_binder_raises:
  assumes "own_binder (heap st ! a) = None" and "parent (heap st ! a) = None"
  shows "(\<exists>e. get_binder st a model = Some (Inl e)) \<and> get_binder st a model \<noteq> Some (Inr None)"
  using assms by (subst get_binder.simps, simp)+

theorem get_binder_without_binder_raises_witness:
  "own_binder (heap magento_store ! 0) = None \<and> parent (heap magento_store ! 0) = None \<and>
   (\<exists>e. get_binder magento_store 0 ''res.partner'' = Some (Inl e))"
  using get_binder_without_binder_raises [of magento_store 0 "''res.partner''"]
  by (simp add: magento_store_def)

text \<open>
  The claim as written fails on \<^verbatim>\<open>Reference('magento').get_binder('res.partner')\<close>:
  the result is not \<^verbatim>\<open>None\<close> but the exception raised by reading the local variable
  \<^verbatim>\<open>binder\<close>, which no branch has assigned.
\<close>

theorem get_binder_returns_None_counterexample:
  "own_binder (heap magento_store ! 0) = None \<and> parent (heap magento_store ! 0) = None \<and>
   get_binder magento_store 0 ''res.partner'' = Some (Inl UnboundLocalError) \<and>
   get_binder magento_store 0 ''res.partner'' \<noteq> Some (Inr None)"
  by (subst get_binder.simps, simp add: magento_store_def)+

text \<open>
  Where the registry lookup does return the new reference: for a non-empty service \<open>s\<close>
  and a registry in which the \<^verbatim>\<open>match(s, v)\<close> of every other reference returns false,
  \<^verbatim>\<open>get_reference(s, v)\<close> after \<^verbatim>\<open>Reference(service=s, version=v)\<close> returns the
  new reference, in whatever order the registry's set is visited.
\<close>

lemma get_reference_finds_new_reference:
  assumes "s \<noteq> []"
      and I: "Reference_init st (Some s) (Some v) par reg = Inr (st', a)"
      and "\<forall>b\<in>set (registries st' (case reg of None \<Rightarrow> REFERENCES | Some g \<Rightarrow> g)).
             b \<noteq> a \<longrightarrow> Reference_match st' b (Some s) (Some v) = Some (Inr False)"
  shows "ReferenceRegistry_get_reference st' (case reg of None \<Rightarrow> REFERENCES | Some g \<Rightarrow> g)
           (Some s) (Some v) = Some (Inr a)"
proof -
  let ?g = "case reg of None \<Rightarrow> REFERENCES | Some g \<Rightarrow> g"
  have "a \<in> set (registries st' ?g)"
    by (simp add: Reference_init_Inr(3)[OF I] set_add_def)
  moreover have "Reference_match st' a (Some s) (Some v) = Some (Inr True)"
    using \<open>s \<noteq> []\<close> by (simp add: Reference_match_own Reference_init_heap(2)[OF I] truthy_def)
  ultimately show ?thesis
    unfolding ReferenceRegistry_get_reference_def
    using assms(3) by (rule find_reference_unique)
qed

lemma get_reference_finds_new_reference_example:
  "\<exists>st'. Reference_init magento1700_store (Some ''prestashop'') (Some ''1.5'') None None
            = Inr (st', 2) \<and>
         Reference_match st' 0 (Some ''prestashop'') (Some ''1.5'') = Some (Inr False) \<and>
         Reference_match st' 1 (Some ''prestashop'') (Some ''1.5'') = Some (Inr False) \<and>
         get_reference st' (Some ''prestashop'') (Some ''1.5'') = Some (Inr 2)"
proof -
  obtain st' where I: "Reference_init magento1700_store (Some ''prestashop'') (Some ''1.5'')
      None None = Inr (st', 2)"
    by (simp add: Reference_init_def Let_def magento1700_store_def)
  have h: "heap st' ! 0 = heap magento1700_store ! 0"
    "heap st' ! Suc 0 = heap magento1700_store ! Suc 0"
    by (simp_all add: Reference_init_heap(3)[OF I] magento1700_store_def)
  have r: "registries st' REFERENCES = [0, 1, 2]"
    by (simp add: Reference_init_Inr(3)[OF I] magento1700_store_def set_add_def REFERENCES_def)
  have m0: "Reference_match st' 0 (Some ''prestashop'') (Some ''1.5'') = Some (Inr False)"
    by (simp add: Reference_match_own h magento1700_store_def truthy_def)
  have "service st' 1 = service st' 0"
    by (rule service_parent) (simp_all add: h magento1700_store_def truthy_def)
  also have "\<dots> = Some (Inr ''magento'')"
    by (simp add: service_own h magento1700_store_def truthy_def)
  finally have m1: "Reference_match st' 1 (Some ''prestashop'') (Some ''1.5'') = Some (Inr False)"
    by (simp add: Reference_match_def)
  have "ReferenceRegistry_get_reference st' REFERENCES (Some ''prestashop'') (Some ''1.5'')
          = Some (Inr 2)"
    using get_reference_finds_new_reference [OF _ I] m0 m1 r by simp
  with I m0 m1 show ?thesis
    by (auto simp: get_reference_def)
qed

text \<open>
  C5 at the input where the code and the claim part. \<^verbatim>\<open>Reference(service='',
  version='1.7')\<close> is constructed against the empty module registry: the constructor
  accepts it, since its guard tests \<^verbatim>\<open>service is None\<close> only, and registers it as
  the registry's one reference. \<^verbatim>\<open>get_reference('', '1.7')\<close> then does not return
  that reference: it raises \<^verbatim>\<open>AttributeError\<close>, because the \<^verbatim>\<open>service\<close>
  property takes the empty string for no service and reads the service of the parent,
  which is \<^verbatim>\<open>None\<close>.
\<close>

theorem get_reference_empty_service_raises:
  "Reference_init init_state (Some []) (Some ''1.7'') None None = Inr (unnamed_store, 0) \<and>
   registries unnamed_store REFERENCES = [0] \<and>
   get_reference unnamed_store (Some []) (Some ''1.7'') = Some (Inl AttributeError)"
proof -
  have "service unnamed_store 0 = Some (Inl AttributeError)"
    by (rule service_no_parent) (simp_all add: unnamed_store_def truthy_def)
  then have "get_reference unnamed_store (Some []) (Some ''1.7'') = Some (Inl AttributeError)"
    by (simp add: get_reference_def ReferenceRegistry_get_reference_def REFERENCES_def
        unnamed_store_def Reference_match_def)
  then show ?thesis
    by (simp add: init_unnamed) (simp add: unnamed_store_def REFERENCES_def)
qed

text \<open>
  Where the decorator does classify: on any reference of the store, applied to a class
  that derives from \<^verbatim>\<open>Binder\<close> it registers the class as the binder and returns the
  class itself, and \<^verbatim>\<open>get_binder\<close> then returns that class. Applied to a class that
  derives from none of the four base classes, it raises \<^verbatim>\<open>TypeError\<close> on a reference
  whose service resolves.
\<close>

lemma call_classifies:
  assumes "a < length (heap st)"
  shows "(issubclass cls Binder \<longrightarrow>
            Reference_call st a cls = Some (Inr (register_binder st a cls, cls)) \<and>
            get_binder (register_binder st a cls) a model = Some (Inr (Some cls))) \<and>
         (\<not> issubclass cls Binder \<and> \<not> issubclass cls Synchronizer \<and> \<not> issubclass cls Mapper \<and>
          \<not> issubclass cls BackendAdapter \<and> service st a = Some (Inr s) \<longrightarrow>
            Reference_call st a cls = Some (Inl TypeError))"
proof -
  have "own_binder (heap (register_binder st a cls) ! a) = Some cls"
    using assms by (simp add: register_binder_def)
  then have "get_binder (register_binder st a cls) a model = Some (Inr (Some cls))"
    by (rule get_binder_registered)
  then show ?thesis
    by (simp add: Reference_call_def raise_about_resolved)
qed

lemma call_classifies_example:
  "(0::nat) < length (heap magento_store) \<and> issubclass MagentoBinder Binder \<and>
   Reference_call magento_store 0 MagentoBinder
     = Some (Inr (register_binder magento_store 0 MagentoBinder, MagentoBinder)) \<and>
   get_binder (register_binder magento_store 0 MagentoBinder) 0 ''res.partner''
     = Some (Inr (Some MagentoBinder)) \<and>
   \<not> issubclass PlainClass Binder \<and> \<not> issubclass PlainClass Synchronizer \<and>
   \<not> issubclass PlainClass Mapper \<and> \<not> issubclass PlainClass BackendAdapter \<and>
   service magento_store 0 = Some (Inr ''magento'') \<and>
   Reference_call magento_store 0 PlainClass = Some (Inl TypeError)"
proof -
  have s: "service magento_store 0 = Some (Inr ''magento'')"
    by (simp add: service_own magento_store_def truthy_def)
  have l: "(0::nat) < length (heap magento_store)"
    by (simp add: magento_store_def)
  show ?thesis
    using call_classifies [OF l, of MagentoBinder "''res.partner''" "''magento''"]
      call_classifies [OF l, of PlainClass "''res.partner''" "''magento''"] s l
    by (simp add: issubclass_def MagentoBinder_def PlainClass_def)
qed

text \<open>
  C7 at the input where the code and the claim part. On the reference
  \<^verbatim>\<open>Reference('', '1.7')\<close>, the decorator applied to a class that derives from none of
  the four base classes reaches its \<^verbatim>\<open>raise TypeError(...)\<close>, and building the message
  with \<^verbatim>\<open>% (cls, self)\<close> reads the \<^verbatim>\<open>service\<close> of the reference: the call raises
  \<^verbatim>\<open>AttributeError\<close>, not \<^verbatim>\<open>TypeError\<close>.
\<close>

theorem call_on_empty_service_raises_AttributeError:
  "\<not> issubclass PlainClass Binder \<and> \<not> issubclass PlainClass Synchronizer \<and>
   \<not> issubclass PlainClass Mapper \<and> \<not> issubclass PlainClass BackendAdapter \<and>
   Reference_call unnamed_store 0 PlainClass = Some (Inl AttributeError)"
proof -
  have "service unnamed_store 0 = Some (Inl AttributeError)"
    by (rule service_no_parent) (simp_all add: unnamed_store_def truthy_def)
  then show ?thesis
    by (simp add: Reference_call_def raise_about_unresolved issubclass_def PlainClass_def)
qed

text \<open>
  C3. What the three lookups do when nothing matches. At a reference without a parent
  they return \<^verbatim>\<open>None\<close>: the \<^verbatim>\<open>raise\<close> of each method stands inside the branch
  \<^verbatim>\<open>if ... is None and self.parent\<close>, which such a reference does not enter. At a
  reference whose parent returned \<^verbatim>\<open>None\<close> they raise \<^verbatim>\<open>ValueError\<close>, if the
  service of the reference can be resolved for the message.
\<close>

lemma get_mapper_root_none:
  assumes "parent (heap st ! a) = None"
      and "\<forall>proc\<in>set (own_mappers (heap st ! a)). \<not> mmatch proc model direction child_of"
  shows "get_mapper mmatch st a model direction child_of = Some (Inr None)"
proof -
  from assms(2)
  have "find (\<lambda>proc. mmatch proc model direction child_of) (own_mappers (heap st ! a)) = None"
    by (simp add: find_None_iff)
  with assms(1) show ?thesis by (subst get_mapper.simps) simp
qed

lemma get_synchronizer_root_none:
  assumes "parent (heap st ! a) = None"
      and "\<forall>sync\<in>set (own_synchronizers (heap st ! a)). \<not> smatch sync synchro_type model"
  shows "get_synchronizer smatch st a synchro_type model = Some (Inr None)"
proof -
  from assms(2)
  have "find (\<lambda>sync. smatch sync synchro_type model) (own_synchronizers (heap st ! a)) = None"
    by (simp add: find_None_iff)
  with assms(1) show ?thesis by (subst get_synchronizer.simps) simp
qed

lemma get_backend_adapter_root_none:
  assumes "parent (heap st ! a) = None"
      and "\<forall>proc\<in>set (own_backend_adapters (heap st ! a)). \<not> amatch proc model"
  shows "get_backend_adapter amatch st a model = Some (Inr None)"
proof -
  from assms(2)
  have "find (\<lambda>proc. amatch proc model) (own_backend_adapters (heap st ! a)) = None"
    by (simp add: find_None_iff)
  with assms(1) show ?thesis by (subst get_backend_adapter.simps) simp
qed

lemma get_mapper_parent_step:
  assumes "parent (heap st ! a) = Some p"
      and "\<forall>proc\<in>set (own_mappers (heap st ! a)). \<not> mmatch proc model direction child_of"
      and "service st a = Some (Inr s)"
      and "get_mapper mmatch st p model direction child_of = Some (Inr None) \<or>
           get_mapper mmatch st p model direction child_of = Some (Inl ValueError)"
  shows "get_mapper mmatch st a model direction child_of = Some (Inl ValueError)"
proof -
  from assms(2)
  have "find (\<lambda>proc. mmatch proc model direction child_of) (own_mappers (heap st ! a)) = None"
    by (simp add: find_None_iff)
  with assms(1,3,4) show ?thesis
    by (subst get_mapper.simps) (auto simp: raise_about_resolved)
qed

lemma get_synchronizer_parent_step:
  assumes "parent (heap st ! a) = Some p"
      and "\<forall>sync\<in>set (own_synchronizers (heap st ! a)). \<not> smatch sync synchro_type model"
      and "service st a = Some (Inr s)"
      and "get_synchronizer smatch st p synchro_type model = Some (Inr None) \<or>
           get_synchronizer smatch st p synchro_type model = Some (Inl ValueError)"
  shows "get_synchronizer smatch st a synchro_type model = Some (Inl ValueError)"
proof -
  from assms(2)
  have "find (\<lambda>sync. smatch sync synchro_type model) (own_synchronizers (heap st ! a)) = None"
    by (simp add: find_None_iff)
  with assms(1,3,4) show ?thesis
    by (subst get_synchronizer.simps) (auto simp: raise_about_resolved)
qed

lemma get_backend_adapter_parent_step:
  assumes "parent (heap st ! a) = Some p"
      and "\<forall>proc\<in>set (own_backend_adapters (heap st ! a)). \<not> amatch proc model"
      and "service st a = Some (Inr s)"
      and "get_backend_adapter amatch st p model = Some (Inr None) \<or>
           get_backend_adapter amatch st p model = Some (Inl ValueError)"
  shows "get_backend_adapter amatch st a model = Some (Inl ValueError)"
proof -
  from assms(2)
  have "find (\<lambda>proc. amatch proc model) (own_backend_adapters (heap st ! a)) = None"
    by (simp add: find_None_iff)
  with assms(1,3,4) show ?thesis
    by (subst get_backend_adapter.simps) (auto simp: raise_about_resolved)
qed

text \<open>
  The path that does raise: \<^verbatim>\<open>magento1700\<close> has a parent, nothing is registered on
  either reference, and its \<^verbatim>\<open>get_mapper\<close> raises \<^verbatim>\<open>ValueError\<close>.
\<close>

lemma lookup_with_parent_raises:
  "get_mapper mmatch magento1700_store 1 model direction child_of = Some (Inl ValueError)"
proof -
  have "get_mapper mmatch magento1700_store 0 model direction child_of = Some (Inr None)"
    by (rule get_mapper_root_none) (simp_all add: magento1700_store_def)
  moreover have "service magento1700_store 0 = Some (Inr ''magento'')"
    by (simp add: service_own magento1700_store_def truthy_def)
  then have "service magento1700_store (Suc 0) = Some (Inr ''magento'')"
    by (subst service_parent [where p = 0]) (simp_all add: magento1700_store_def truthy_def)
  ultimately have
    "get_mapper mmatch magento1700_store (Suc 0) model direction child_of = Some (Inl ValueError)"
    by (intro get_mapper_parent_step [where p = 0 and s = "''magento''"])
      (simp_all add: magento1700_store_def)
  then show ?thesis by simp
qed

text \<open>
  C3 at the input where the code and the claim part. After \<^verbatim>\<open>magento =
  Reference('magento')\<close> and no registration at all, \<^verbatim>\<open>magento.get_mapper\<close>,
  \<^verbatim>\<open>magento.get_synchronizer\<close> and \<^verbatim>\<open>magento.get_backend_adapter\<close> return
  \<^verbatim>\<open>None\<close>, whatever the arguments and the \<^verbatim>\<open>match\<close> methods are: none of them
  raises.
\<close>

theorem lookups_without_parent_return_None:
  "get_mapper mmatch magento_store 0 model direction child_of = Some (Inr None) \<and>
   get_synchronizer smatch magento_store 0 synchro_type model = Some (Inr None) \<and>
   get_backend_adapter amatch magento_store 0 model = Some (Inr None)"
proof -
  have "get_mapper mmatch magento_store 0 model direction child_of = Some (Inr None)"
    by (rule get_mapper_root_none) (simp_all add: magento_store_def)
  moreover
  have "get_synchronizer smatch magento_store 0 synchro_type model = Some (Inr None)"
    by (rule get_synchronizer_root_none) (simp_all add: magento_store_def)
  moreover
  have "get_backend_adapter amatch magento_store 0 model = Some (Inr None)"
    by (rule get_backend_adapter_root_none) (simp_all add: magento_store_def)
  ultimately show ?thesis by simp
qed

subsection \<open>Two more properties of the module\<close>

text \<open>
  The \<^verbatim>\<open>service\<close> property of a child constructed without a service is the service of
  its parent, when that is a non-empty string:
  \<^verbatim>\<open>Reference(parent=parent, version='1.0').service == parent.service\<close>.
\<close>

theorem service_inherited:
  assumes P: "Reference_init st (Some svc) pver None preg = Inr (st1, p)"
      and C: "Reference_init st1 None cver (Some p) creg = Inr (st2, c)"
      and S: "svc \<noteq> []"
  shows "service st2 c = Some (Inr svc) \<and> service st2 p = Some (Inr svc)"
proof -
  have p: "p = length (heap st)"
    by (simp add: Reference_init_Inr(1)[OF P])
  have l1: "length (heap st1) = Suc (length (heap st))"
    by (simp add: Reference_init_heap(1)[OF P])
  have pc: "p < length (heap st1)"
    using p l1 by simp
  have hp: "own_service (heap st2 ! p) = Some svc"
    using Reference_init_heap(3)[OF C pc] Reference_init_heap(2)[OF P] by simp
  have hc: "own_service (heap st2 ! c) = None" "parent (heap st2 ! c) = Some p"
    using Reference_init_heap(2)[OF C] by simp_all
  have sp: "service st2 p = Some (Inr svc)"
    using S by (simp add: service_own hp truthy_def)
  have "service st2 c = service st2 p"
    by (rule service_parent) (simp_all add: hc truthy_def)
  with sp show ?thesis by simp
qed

theorem service_inherited_witness:
  "''magento'' \<noteq> [] \<and> service magento1700_store 1 = Some (Inr ''magento'') \<and>
   service magento1700_store 0 = Some (Inr ''magento'')"
  using service_inherited [OF init_magento init_magento1700]
  by simp

text \<open>
  \<^verbatim>\<open>get_binder\<close> never returns \<^verbatim>\<open>None\<close>, on any store and at any reference:
  whenever the call returns, it returns a registered class.
\<close>

theorem get_binder_never_None:
  "get_binder st a model \<noteq> Some (Inr None)"
proof
  assume ret: "get_binder st a model = Some (Inr None)"
  have "Inr None \<noteq> (Inr None :: error + pyclass option)"
  proof (rule get_binder.raw_induct
      [where P = "\<lambda>st a model r. r \<noteq> Inr None", OF _ ret])
    fix f :: "state \<Rightarrow> addr \<Rightarrow> string \<Rightarrow> (error + pyclass option) option"
      and st a model r
    assume IH: "\<And>st a model r. f st a model = Some r \<Longrightarrow> r \<noteq> Inr None"
      and eq: "(case own_binder (heap st ! a) of
                  Some b \<Rightarrow> Some (Inr (Some b))
                | None \<Rightarrow>
                    (case parent (heap st ! a) of
                       None \<Rightarrow> Some (Inl UnboundLocalError)
                     | Some p \<Rightarrow>
                         Option.bind (f st p model) (\<lambda>r.
                           case r of
                             Inl e \<Rightarrow> Some (Inl e)
                           | Inr None \<Rightarrow> raise_about st a ValueError
                           | Inr (Some b) \<Rightarrow> Some (Inr (Some b))))) = Some r"
    show "r \<noteq> Inr None"
      using eq IH
      by (auto simp: raise_about_def Reference_str_def
          split: option.splits sum.splits Option.bind_splits if_splits)
  qed
  then show False by simp
qed

end
